theory Spec2Isabelle
  imports Complex_Main "HOL-Library.Sublist"
begin

section \<open>Data model\<close>

text \<open>
  The survey form's state (\<open>interface FormData\<close> of the two \<open>SurveyForm\<close> variants).
  Its fields carry the names of the record fields below; they are read qualified,
  \<open>FormData.name fd\<close>, as the source reads \<open>formData.name\<close>.
\<close>

record FormData =
  name :: string
  topics :: "string list"
  description :: string
  podcast_formats :: "string list"
  suggested_guest :: string

text \<open>The state of the \<open>SurveyForm\<close> component, one field per \<open>useState\<close>.\<close>

record SurveyForm =
  formData :: FormData
  loading :: bool
  success :: bool
  error :: string

text \<open>
  The object handed to \<open>supabase.from("surveys").insert\<close>: a survey row without the
  two fields the store assigns. \<open>string | null\<close> is \<open>string option\<close>.
\<close>

record SurveyInsert =
  name :: string
  topics :: "string list"
  description :: string
  podcast_formats :: "string list"
  suggested_guest :: "string option"

text \<open>\<open>interface Survey\<close>: a stored row. The field \<open>id\<close> is written \<open>sid\<close>.\<close>

record Survey = SurveyInsert +
  sid :: string
  created_at :: string

text \<open>
  \<open>interface Stats { [key: string]: number }\<close>, a plain object used as a dictionary from
  labels to counts; the map holds the object's own properties. The declared value type
  is \<open>number\<close>, but at run time an entry can come to hold a string, when its label names
  a property that every plain object inherits (see \<open>countLabel\<close>).
\<close>

datatype jsval = Num nat | Str string

type_synonym Stats = "string \<rightharpoonup> jsval"

text \<open>The state of the \<open>Dashboard\<close> component, one field per \<open>useState\<close>.\<close>

record Dashboard =
  surveys :: "Survey list"
  filteredSurveys :: "Survey list"
  loading :: bool
  topicFilter :: string
  formatFilter :: string
  searchTerm :: string
  topicStats :: Stats
  formatStats :: Stats
  currentPage :: int
  deleteItems :: "string list"

section \<open>Built-ins of the host language\<close>

text \<open>
  \<open>String.prototype.includes\<close>: the needle occurs in the string at some position.
\<close>

fun str_includes :: "'a list \<Rightarrow> 'a list \<Rightarrow> bool" where
  "str_includes [] t = (t = [])"
| "str_includes (c # cs) t = (prefix t (c # cs) \<or> str_includes cs t)"

text \<open>
  \<open>Array.prototype.slice(start, stop)\<close>: a negative index counts from the end, both
  indices saturate at the ends of the array, and nothing is copied when the first is
  not before the second.
\<close>

definition slice :: "'a list \<Rightarrow> int \<Rightarrow> int \<Rightarrow> 'a list" where
  "slice xs start stop =
     (let len = int (length xs);
          k = (if start < 0 then max (len + start) 0 else min start len);
          final = (if stop < 0 then max (len + stop) 0 else min stop len)
      in take (nat (final - k)) (drop (nat k) xs))"

section \<open>Paginator\<close>

text \<open>
  \<open>const [itemsPerPage] = useState(10)\<close>: no setter is bound, the value never changes.
\<close>

definition itemsPerPage :: int where
  "itemsPerPage = 10"

text \<open>
  \<open>Math.ceil(filteredSurveys.length / itemsPerPage)\<close>. The quotient of the source is a
  double; an array has fewer than \<open>2 ^ 32\<close> elements, and for such a length the double
  quotient and the real one have the same ceiling.
\<close>

definition totalPages :: "'a list \<Rightarrow> int" where
  "totalPages filtered = \<lceil>real (length filtered) / real_of_int itemsPerPage\<rceil>"

definition startIndex :: "int \<Rightarrow> int" where
  "startIndex page = (page - 1) * itemsPerPage"

definition endIndex :: "int \<Rightarrow> int" where
  "endIndex page = startIndex page + itemsPerPage"

definition currentSurveys :: "'a list \<Rightarrow> int \<Rightarrow> 'a list" where
  "currentSurveys filtered page = slice filtered (startIndex page) (endIndex page)"

text \<open>\<open>setCurrentPage(Math.min(Math.max(1, page), totalPages))\<close>\<close>

definition goToPage :: "int \<Rightarrow> Dashboard \<Rightarrow> Dashboard" where
  "goToPage page st =
     st\<lparr>currentPage := min (max 1 page) (totalPages (filteredSurveys st))\<rparr>"

section \<open>Filter engine\<close>

text \<open>
  \<open>applyFilters\<close>, the same in both dashboard variants. \<open>String.prototype.toLowerCase\<close>
  is a built-in of the host language and is taken as the parameter \<open>toLowerCase\<close>;
  all that is used of it below is that it maps the empty string to itself.
  \<open>Array.prototype.includes\<close> on an array of strings is list membership.
  \<open>if (searchTerm)\<close> holds for every string but the empty one, and
  \<open>s.suggested_guest && ...\<close> is falsy for \<open>null\<close> and for the empty string.
\<close>

definition applyFilters :: "(string \<Rightarrow> string) \<Rightarrow> Dashboard \<Rightarrow> Dashboard" where
  "applyFilters toLowerCase st =
     (let filtered = surveys st;
          filtered = (if topicFilter st \<noteq> ''all''
                      then filter (\<lambda>s. topicFilter st \<in> set (topics s)) filtered
                      else filtered);
          filtered = (if formatFilter st \<noteq> ''all''
                      then filter (\<lambda>s. formatFilter st \<in> set (podcast_formats s)) filtered
                      else filtered);
          filtered = (if searchTerm st \<noteq> ''''
                      then (let term = toLowerCase (searchTerm st)
                            in filter (\<lambda>s. str_includes (toLowerCase (name s)) term \<or>
                                           str_includes (toLowerCase (description s)) term \<or>
                                           (case suggested_guest s of
                                              None \<Rightarrow> False
                                            | Some g \<Rightarrow> g \<noteq> '''' \<and>
                                                str_includes (toLowerCase g) term))
                                 filtered)
                      else filtered)
      in st\<lparr>filteredSurveys := filtered, currentPage := 1\<rparr>)"

text \<open>
  The filter contract in the specification's words: the conjunction of the topic test,
  the format test and the search test, with "substring" the library's \<open>sublist\<close>.
\<close>

definition passesFilters ::
  "(string \<Rightarrow> string) \<Rightarrow> string \<Rightarrow> string \<Rightarrow> string \<Rightarrow> Survey \<Rightarrow> bool" where
  "passesFilters toLowerCase tf ff q s \<longleftrightarrow>
     (tf = ''all'' \<or> tf \<in> set (topics s)) \<and>
     (ff = ''all'' \<or> ff \<in> set (podcast_formats s)) \<and>
     (q = '''' \<or>
      sublist (toLowerCase q) (toLowerCase (name s)) \<or>
      sublist (toLowerCase q) (toLowerCase (description s)) \<or>
      (case suggested_guest s of
         None \<Rightarrow> False
       | Some g \<Rightarrow> sublist (toLowerCase q) (toLowerCase g)))"

section \<open>Aggregator\<close>

text \<open>
  The tables start as \<open>{}\<close>, whose prototype is \<open>Object.prototype\<close>. These are the
  property names a plain object inherits from it.
\<close>

definition objectPrototypeKeys :: "string list" where
  "objectPrototypeKeys =
     [''constructor'', ''__defineGetter__'', ''__defineSetter__'', ''hasOwnProperty'',
      ''__lookupGetter__'', ''__lookupSetter__'', ''isPrototypeOf'',
      ''propertyIsEnumerable'', ''toString'', ''valueOf'', ''__proto__'',
      ''toLocaleString'']"

text \<open>
  The text an inherited property converts to when a number is added to it: \<open>__proto__\<close>
  reads as \<open>Object.prototype\<close> itself, \<open>constructor\<close> as the function \<open>Object\<close>, every
  other name as the built-in function of that name. \<open>None\<close> for a name that is not
  inherited.
\<close>

definition inheritedText :: "string \<Rightarrow> string option" where
  "inheritedText key =
     (if key \<in> set objectPrototypeKeys
      then Some (if key = ''__proto__'' then ''[object Object]''
                 else if key = ''constructor'' then ''function Object() { [native code] }''
                 else ''function '' @ key @ ''() { [native code] }'')
      else None)"

text \<open>
  \<open>stats[label]\<close>: the own property when there is one, else the inherited one, else
  \<open>undefined\<close> (\<open>None\<close>). An inherited value stands here as the text it converts to: both
  are truthy, and adding 1 to either gives the same string.
\<close>

definition readStat :: "Stats \<Rightarrow> string \<Rightarrow> jsval option" where
  "readStat stats label =
     (case stats label of
        Some v \<Rightarrow> Some v
      | None \<Rightarrow> map_option Str (inheritedText label))"

text \<open>
  \<open>(v || 0) + 1\<close>: \<open>undefined\<close>, 0 and the empty string are falsy and give 1; a number
  gives its successor; any other string gets the character \<open>1\<close> appended.
\<close>

definition orZeroPlusOne :: "jsval option \<Rightarrow> jsval" where
  "orZeroPlusOne v =
     (case v of
        None \<Rightarrow> Num 1
      | Some (Num c) \<Rightarrow> Num (c + 1)
      | Some (Str s) \<Rightarrow> if s = '''' then Num 1 else Str (s @ ''1''))"

text \<open>
  \<open>stats[label] = v\<close>: creates or overwrites the own property, but for \<open>__proto__\<close>,
  whose inherited setter ignores a number and a string and creates no property.
\<close>

definition writeStat :: "Stats \<Rightarrow> string \<Rightarrow> jsval \<Rightarrow> Stats" where
  "writeStat stats label v = (if label = ''__proto__'' then stats else stats(label \<mapsto> v))"

text \<open>\<open>stats[label] = (stats[label] || 0) + 1\<close>\<close>

definition countLabel :: "string \<Rightarrow> Stats \<Rightarrow> Stats" where
  "countLabel label stats = writeStat stats label (orZeroPlusOne (readStat stats label))"

text \<open>
  \<open>calculateStats\<close>: one pass over the rows; each row runs over its \<open>topics\<close> array and
  then over its \<open>podcast_formats\<close> array.
\<close>

definition calculateStats :: "Survey list \<Rightarrow> Dashboard \<Rightarrow> Dashboard" where
  "calculateStats data st =
     (let (ts, fs) =
            fold (\<lambda>survey (ts, fs).
                    (fold countLabel (topics survey) ts,
                     fold countLabel (podcast_formats survey) fs))
                 data (Map.empty, Map.empty)
      in st\<lparr>topicStats := ts, formatStats := fs\<rparr>)"

text \<open>
  The aggregator's contract in the specification's words. A row's categorical field is
  a set of labels: as an array, it repeats no label, and its labels are ordinary
  dictionary keys (none names an inherited property). \<open>recordsWith\<close> is the number of
  rows whose field contains the label, and \<open>tableOf\<close> the table's entry for a count: a
  label that no row contains has no entry.
\<close>

definition labelSet :: "string list \<Rightarrow> bool" where
  "labelSet ls \<longleftrightarrow> distinct ls \<and> list_all (\<lambda>l. l \<notin> set objectPrototypeKeys) ls"

definition recordsWith :: "(Survey \<Rightarrow> string list) \<Rightarrow> Survey list \<Rightarrow> string \<Rightarrow> nat" where
  "recordsWith field data label = length (filter (\<lambda>s. label \<in> set (field s)) data)"

definition tableOf :: "nat \<Rightarrow> jsval option" where
  "tableOf n = (if n = 0 then None else Some (Num n))"

text \<open>The table that holds, for every label, the entry for its count.\<close>

definition countsTable :: "(string \<Rightarrow> nat) \<Rightarrow> Stats" where
  "countsTable f = (\<lambda>l. tableOf (f l))"

text \<open>
  The number of occurrences of a label in the field's arrays over all rows, which is
  what the aggregator's loops count.
\<close>

definition occurrences :: "(Survey \<Rightarrow> string list) \<Rightarrow> Survey list \<Rightarrow> string \<Rightarrow> nat" where
  "occurrences field data label = sum_list (map (\<lambda>s. count_list (field s) label) data)"

section \<open>Bulk delete\<close>

text \<open>
  \<open>handleDeleteSurvey\<close> (first dashboard variant). \<open>confirmed\<close> is the answer of
  \<open>window.confirm\<close>, \<open>err\<close> the \<open>error\<close> field of the store's reply to
  \<open>delete().in("id", ids)\<close>, \<open>None\<close> when the store reports none.
\<close>

definition handleDeleteSurvey ::
  "string list \<Rightarrow> bool \<Rightarrow> 'e option \<Rightarrow> Dashboard \<Rightarrow> Dashboard" where
  "handleDeleteSurvey ids confirmed err st =
     (if confirmed then
        (case err of
           Some e \<Rightarrow> st
         | None \<Rightarrow> st\<lparr>surveys := filter (\<lambda>s. sid s \<notin> set ids) (surveys st),
                      deleteItems := []\<rparr>)
      else st)"

section \<open>View controller\<close>

text \<open>
  What the user and the store can do to the dashboard. \<open>SurveysFetched\<close> carries the
  \<open>error\<close> and \<open>data\<close> fields of the store's reply to the select, \<open>DeleteClicked\<close> the
  answer of \<open>window.confirm\<close> and the \<open>error\<close> field of the reply to the delete.
\<close>

datatype 'e event =
    TopicChanged string
  | FormatChanged string
  | SearchChanged string
  | ClearFilters
  | SurveysFetched "'e option" "Survey list option"
  | PageRequested int
  | CardClicked string
  | DeleteClicked bool "'e option"

text \<open>
  The handler of each event: the state after its setters, and whether \<open>setSurveys\<close> was
  called. \<open>fetchSurveys\<close> stores the rows only when the reply has no error and has data;
  the "Delete Selected" button passes \<open>deleteItems\<close> to \<open>handleDeleteSurvey\<close>.
\<close>

fun handler :: "'e event \<Rightarrow> Dashboard \<Rightarrow> Dashboard \<times> bool" where
  "handler (TopicChanged v) st = (st\<lparr>topicFilter := v\<rparr>, False)"
| "handler (FormatChanged v) st = (st\<lparr>formatFilter := v\<rparr>, False)"
| "handler (SearchChanged v) st = (st\<lparr>searchTerm := v\<rparr>, False)"
| "handler ClearFilters st =
     (st\<lparr>topicFilter := ''all'', formatFilter := ''all'', searchTerm := ''''\<rparr>, False)"
| "handler (SurveysFetched err data) st =
     (case err of
        Some e \<Rightarrow> (st\<lparr>loading := False\<rparr>, False)
      | None \<Rightarrow>
          (case data of
             None \<Rightarrow> (st\<lparr>loading := False\<rparr>, False)
           | Some rows \<Rightarrow> ((calculateStats rows (st\<lparr>surveys := rows\<rparr>))\<lparr>loading := False\<rparr>, True)))"
| "handler (PageRequested page) st = (goToPage page st, False)"
| "handler (CardClicked i) st =
     (if i \<in> set (deleteItems st)
      then st\<lparr>deleteItems := filter (\<lambda>j. j \<noteq> i) (deleteItems st)\<rparr>
      else st\<lparr>deleteItems := deleteItems st @ [i]\<rparr>, False)"
| "handler (DeleteClicked confirmed err) st =
     (handleDeleteSurvey (deleteItems st) confirmed err st,
      confirmed \<and> err = None)"

text \<open>
  \<open>useEffect(() => { applyFilters() }, [surveys, topicFilter, formatFilter, searchTerm])\<close>:
  after a handler, the effect runs when a dependency differs from its value before.
  Strings are compared by value. \<open>surveys\<close> is compared by identity, and every
  \<open>setSurveys\<close> of the source stores a fresh array (the rows of the reply, the result of
  \<open>prev.filter\<close>), so it differs exactly when \<open>setSurveys\<close> was called.
\<close>

definition depsChanged :: "bool \<Rightarrow> Dashboard \<Rightarrow> Dashboard \<Rightarrow> bool" where
  "depsChanged surveysSet old new \<longleftrightarrow>
     surveysSet \<or> topicFilter new \<noteq> topicFilter old \<or>
     formatFilter new \<noteq> formatFilter old \<or> searchTerm new \<noteq> searchTerm old"

definition dispatch :: "(string \<Rightarrow> string) \<Rightarrow> 'e event \<Rightarrow> Dashboard \<Rightarrow> Dashboard" where
  "dispatch toLowerCase ev st =
     (let (new, surveysSet) = handler ev st
      in if depsChanged surveysSet st new then applyFilters toLowerCase new else new)"

text \<open>
  The events the specification calls a change of a filter input or of the source
  record collection: a setter called with a value other than the current one, and a
  store reply that makes the handler replace \<open>surveys\<close>.
\<close>

fun changesInput :: "'e event \<Rightarrow> Dashboard \<Rightarrow> bool" where
  "changesInput (TopicChanged v) st = (v \<noteq> topicFilter st)"
| "changesInput (FormatChanged v) st = (v \<noteq> formatFilter st)"
| "changesInput (SearchChanged v) st = (v \<noteq> searchTerm st)"
| "changesInput ClearFilters st =
     (topicFilter st \<noteq> ''all'' \<or> formatFilter st \<noteq> ''all'' \<or> searchTerm st \<noteq> '''')"
| "changesInput (SurveysFetched err data) st = (err = None \<and> data \<noteq> None)"
| "changesInput (PageRequested page) st = False"
| "changesInput (CardClicked i) st = False"
| "changesInput (DeleteClicked confirmed err) st = (confirmed \<and> err = None)"

section \<open>Survey form\<close>

text \<open>
  The two \<open>SurveyForm\<close> variants differ, in \<open>handleSubmit\<close>, in the text of the two
  validation messages only.
\<close>

datatype variant = FirstVariant | SecondVariant

fun topicsMessage :: "variant \<Rightarrow> string" where
  "topicsMessage FirstVariant = ''Please select at least one topic''"
| "topicsMessage SecondVariant = ''Pilih minimal satu topik yang ingin kamu dengarkan''"

fun formatsMessage :: "variant \<Rightarrow> string" where
  "formatsMessage FirstVariant = ''Please select at least one podcast format''"
| "formatsMessage SecondVariant = ''Pilih minimal satu format podcast''"

text \<open>
  The vocabularies \<open>TOPICS\<close> and \<open>PODCAST_FORMATS\<close> of the two variants: the form renders
  one checkbox per entry.
\<close>

fun TOPICS :: "variant \<Rightarrow> string list" where
  "TOPICS FirstVariant =
     [''Technology'', ''Business'', ''Health & Wellness'', ''Entertainment'',
      ''Education'', ''Science'', ''Politics'', ''Sports'', ''Arts & Culture'', ''Other'']"
| "TOPICS SecondVariant =
     [''Software Development (Web, Mobile, Game)'',
      ''Artificial Intelligence & Machine Learning'', ''Cyber Security & Ethical Hacking'',
      ''Cloud Computing & DevOps'', ''Data Science & Big Data'', ''Blockchain & Web3'',
      ''Internet of Things (IoT) & Robotics'', ''UI/UX Design & Product Management'',
      ''Open Source Contribution'', ''Tech Career Roadmaps (Internship & Jobs)'',
      ''Startup & Digital Business'', ''IT Student Survival Guide (Tips Kuliah)'',
      ''Tech Trends & News'', ''Competitive Programming & Hackathons'',
      ''Linux & Open Source Culture'', ''Other (Isikan di kolom Deskripsi)'']"

fun PODCAST_FORMATS :: "variant \<Rightarrow> string list" where
  "PODCAST_FORMATS FirstVariant =
     [''Interview'', ''Solo Commentary'', ''Panel Discussion'', ''Storytelling'',
      ''News & Analysis'', ''Educational'', ''Comedy'', ''Debate'']"
| "PODCAST_FORMATS SecondVariant =
     [''Expert Interview (Wawancara Dosen/Praktisi)'',
      ''Alumni Success Story (Berbagi pengalaman lulusan)'',
      ''Student Talk (Ngobrol santai antar mahasiswa)'',
      ''Tech News Roundup (Rangkuman berita IT mingguan)'',
      ''Q&A Session (Menjawab pertanyaan dari audiens)'']"

text \<open>
  \<open>handleCheckboxChange\<close>, the only writer of the form's two arrays: a click on a
  checkbox removes its label from the field's array when it is there and appends it
  when it is not.
\<close>

datatype checkbox_field = TopicsField | FormatsField

definition handleCheckboxChange :: "checkbox_field \<Rightarrow> string \<Rightarrow> SurveyForm \<Rightarrow> SurveyForm" where
  "handleCheckboxChange field value st =
     (let prev = formData st;
          currentArray = (case field of
                            TopicsField \<Rightarrow> FormData.topics prev
                          | FormatsField \<Rightarrow> FormData.podcast_formats prev);
          newArray = (if value \<in> set currentArray
                      then filter (\<lambda>item. item \<noteq> value) currentArray
                      else currentArray @ [value])
      in st\<lparr>formData := (case field of
                            TopicsField \<Rightarrow> prev\<lparr>FormData.topics := newArray\<rparr>
                          | FormatsField \<Rightarrow> prev\<lparr>FormData.podcast_formats := newArray\<rparr>)\<rparr>)"

text \<open>
  What the \<open>try\<close> block can throw: the store's \<open>insertError\<close>, rethrown, or whatever the
  call itself throws. The handler asks only whether the value is an \<open>Error\<close> instance.
\<close>

datatype thrown = ErrorInstance string | OtherValue

text \<open>
  \<open>handleSubmit\<close>. \<open>store\<close> stands for the record store: for the row it is handed, what the
  \<open>try\<close> block throws, \<open>None\<close> when the insert succeeds. The result is the form's state
  after the handler and the insert requests it issued, in order.
  \<open>formData.suggested_guest || null\<close> is \<open>null\<close> for the empty string only.
\<close>

definition handleSubmit ::
  "variant \<Rightarrow> (SurveyInsert \<Rightarrow> thrown option) \<Rightarrow> SurveyForm \<Rightarrow> SurveyForm \<times> SurveyInsert list" where
  "handleSubmit v store st0 =
     (let st = st0\<lparr>error := '''', success := False\<rparr>
      in if length (FormData.topics (formData st)) = 0
         then (st\<lparr>error := topicsMessage v\<rparr>, [])
         else if length (FormData.podcast_formats (formData st)) = 0
         then (st\<lparr>error := formatsMessage v\<rparr>, [])
         else
           (let st = st\<lparr>SurveyForm.loading := True\<rparr>;
                row = \<lparr>name = FormData.name (formData st),
                       topics = FormData.topics (formData st),
                       description = FormData.description (formData st),
                       podcast_formats = FormData.podcast_formats (formData st),
                       suggested_guest =
                         (if FormData.suggested_guest (formData st) = '''' then None
                          else Some (FormData.suggested_guest (formData st)))\<rparr>;
                st = (case store row of
                        None \<Rightarrow>
                          st\<lparr>success := True,
                             formData := \<lparr>FormData.name = '''', FormData.topics = [],
                                          FormData.description = '''',
                                          FormData.podcast_formats = [],
                                          FormData.suggested_guest = ''''\<rparr>\<rparr>
                      | Some (ErrorInstance message) \<Rightarrow> st\<lparr>error := message\<rparr>
                      | Some OtherValue \<Rightarrow> st\<lparr>error := ''An error occurred''\<rparr>)
            in (st\<lparr>SurveyForm.loading := False\<rparr>, [row])))"

section \<open>Example data\<close>

text \<open>The dashboard as it is mounted: the initial value of each \<open>useState\<close>.\<close>

definition initialDashboard :: Dashboard where
  "initialDashboard =
     \<lparr>surveys = [], filteredSurveys = [], loading = True, topicFilter = ''all'',
      formatFilter = ''all'', searchTerm = '''', topicStats = Map.empty,
      formatStats = Map.empty, currentPage = 1, deleteItems = []\<rparr>"

text \<open>Lower-casing of the ASCII letters, to run the filter on concrete rows.\<close>

definition lowerChar :: "char \<Rightarrow> char" where
  "lowerChar c =
     (let n = of_char c :: nat in if 65 \<le> n \<and> n \<le> 90 then char_of (n + 32) else c)"

definition asciiLower :: "string \<Rightarrow> string" where
  "asciiLower s = map lowerChar s"

text \<open>Twenty-five rows with distinct identifiers, and a dashboard showing them.\<close>

definition exampleRow :: "nat \<Rightarrow> Survey" where
  "exampleRow i =
     \<lparr>name = ''Ana'', topics = [''Technology''], description = ''More on compilers'',
      podcast_formats = [''Interview''], suggested_guest = None,
      sid = replicate i (CHR ''i''), created_at = ''2024-05-01''\<rparr>"

definition examplePage :: Dashboard where
  "examplePage = initialDashboard\<lparr>filteredSurveys := map exampleRow [0..<25]\<rparr>"

text \<open>
  Three stored rows, newest first: one with a guest, one anonymous and without a guest,
  one whose guest is the empty string.
\<close>

definition rowAna :: Survey where
  "rowAna =
     \<lparr>name = ''Ana'', topics = [''Technology'', ''Science''],
      description = ''Rust compilers'', podcast_formats = [''Interview''],
      suggested_guest = Some ''Linus Torvalds'', sid = ''a1'', created_at = ''2024-05-03''\<rparr>"

definition rowAnonymous :: Survey where
  "rowAnonymous =
     \<lparr>name = '''', topics = [''Sports''], description = ''Weekly football recap'',
      podcast_formats = [''Debate'', ''Interview''], suggested_guest = None,
      sid = ''b2'', created_at = ''2024-05-02''\<rparr>"

definition rowBudi :: Survey where
  "rowBudi =
     \<lparr>name = ''Budi'', topics = [''Technology''], description = ''Startup stories'',
      podcast_formats = [''Panel Discussion''], suggested_guest = Some '''',
      sid = ''c3'', created_at = ''2024-05-01''\<rparr>"

text \<open>
  The dashboard after these three rows were fetched, with no filter set.
\<close>

definition exampleDashboard :: Dashboard where
  "exampleDashboard =
     initialDashboard\<lparr>surveys := [rowAna, rowAnonymous, rowBudi],
                       filteredSurveys := [rowAna, rowAnonymous, rowBudi],
                       loading := False\<rparr>"

text \<open>
  A filled-in form that passes validation, a store that accepts every row and one that
  rejects every row.
\<close>

definition exampleForm :: SurveyForm where
  "exampleForm =
     \<lparr>formData = \<lparr>FormData.name = '''', FormData.topics = [''Science''],
                   FormData.description = ''Black holes'',
                   FormData.podcast_formats = [''Storytelling''],
                   FormData.suggested_guest = ''''\<rparr>,
      SurveyForm.loading = False, success = False, error = ''old message''\<rparr>"

definition acceptingStore :: "SurveyInsert \<Rightarrow> thrown option" where
  "acceptingStore row = None"

definition rejectingStore :: "SurveyInsert \<Rightarrow> thrown option" where
  "rejectingStore row = Some (ErrorInstance ''duplicate key'')"

section \<open>Properties of the paginator\<close>

lemma totalPages_div: "totalPages xs = (int (length xs) + 9) div 10"
proof -
  have "\<lceil>real (length xs) / 10\<rceil> = \<lceil>real_of_int (int (length xs)) / real_of_int 10\<rceil>"
    by simp
  also have "\<dots> = - ((- int (length xs)) div 10)"
    by (simp only: ceiling_divide_eq_div)
  also have "\<dots> = (int (length xs) + 9) div 10"
    by presburger
  finally show ?thesis
    by (simp add: totalPages_def itemsPerPage_def)
qed

lemma totalPages_Nil: "totalPages [] = 0"
  by (simp add: totalPages_def)

lemma totalPages_pos: "xs \<noteq> [] \<Longrightarrow> 1 \<le> totalPages xs"
proof -
  assume "xs \<noteq> []"
  then have "1 \<le> int (length xs)"
    by (cases xs) simp_all
  then show ?thesis
    unfolding totalPages_div by presburger
qed

lemma slice_drop_take:
  assumes "0 \<le> a" and "a \<le> b"
  shows "slice xs a b = drop (nat a) (take (nat b) xs)"
proof -
  let ?L = "int (length xs)"
  have s: "slice xs a b = take (nat (min b ?L - min a ?L)) (drop (nat (min a ?L)) xs)"
    using assms by (simp add: slice_def Let_def)
  show ?thesis
  proof (cases "a \<le> ?L")
    case True
    then have "nat (min b ?L - min a ?L) = min (nat b) (length xs) - nat a"
      using assms by (simp add: min_def) linarith
    moreover have "take (min (nat b) (length xs) - nat a) (drop (nat a) xs) =
        take (nat b - nat a) (drop (nat a) xs)"
      by (cases "nat b \<le> length xs") (simp_all add: min_def)
    ultimately show ?thesis
      using True assms by (simp add: s drop_take)
  next
    case False
    then show ?thesis
      using assms by (simp add: s)
  qed
qed

lemma currentSurveys_drop_take:
  assumes "1 \<le> p"
  shows "currentSurveys xs p = drop (nat (p - 1) * 10) (take (nat p * 10) xs)"
proof -
  have "currentSurveys xs p = drop (nat ((p - 1) * 10)) (take (nat ((p - 1) * 10 + 10)) xs)"
    unfolding currentSurveys_def startIndex_def endIndex_def itemsPerPage_def
    using assms by (intro slice_drop_take) simp_all
  moreover have "nat ((p - 1) * 10) = nat (p - 1) * 10"
    using assms by (simp add: nat_mult_distrib)
  moreover have "nat ((p - 1) * 10 + 10) = nat p * 10"
    using assms by (simp add: nat_mult_distrib[symmetric])
  ultimately show ?thesis by simp
qed

lemma upto_as_upt: "[1..int n] = map (\<lambda>i. int i + 1) [0..<n]"
proof (induction n)
  case 0
  show ?case by simp
next
  case (Suc n)
  have "[1..int (Suc n)] = [1..int n] @ [int n + 1]"
    using upto_rec2 [of 1 "int n + 1"] by (simp add: add.commute)
  then show ?case
    using Suc by simp
qed

lemma pages_take:
  "concat (map (\<lambda>i. currentSurveys xs (int i + 1)) [0..<n]) = take (n * 10) xs"
proof (induction n)
  case 0
  show ?case by simp
next
  case (Suc n)
  have "currentSurveys xs (int n + 1) = drop (n * 10) (take (n * 10 + 10) xs)"
    using currentSurveys_drop_take [of "int n + 1" xs]
    by (simp add: nat_add_distrib add.commute)
  also have "\<dots> = take 10 (drop (n * 10) xs)"
    by (simp add: drop_take)
  finally have "currentSurveys xs (int n + 1) = take 10 (drop (n * 10) xs)" .
  then show ?case
    using Suc take_add [of "n * 10" 10 xs] by (simp add: add.commute)
qed

lemma pages_concat: "concat (map (currentSurveys xs) [1..totalPages xs]) = xs"
proof -
  define n where "n = nat (totalPages xs)"
  have t: "totalPages xs = int n"
    unfolding n_def totalPages_div by simp
  have "length xs \<le> n * 10"
    using t unfolding totalPages_div by linarith
  then show ?thesis
    unfolding t upto_as_upt by (simp add: pages_take comp_def)
qed

lemma page_offsets:
  assumes "1 \<le> p"
  shows "currentSurveys xs p =
           map (\<lambda>i. xs ! i) [nat ((p - 1) * 10) ..< min (nat (p * 10)) (length xs)]"
proof -
  have "nat ((p - 1) * 10) = nat (p - 1) * 10" "nat (p * 10) = nat p * 10"
    using assms by (simp_all add: nat_mult_distrib)
  moreover have "drop a (take b xs) = map (\<lambda>i. xs ! i) [a ..< min b (length xs)]" for a b
    by (rule map_upt_eqI [symmetric]) (auto simp add: min_def split: if_splits)
  ultimately show ?thesis
    using currentSurveys_drop_take [OF assms, of xs] by simp
qed

text \<open>
  Claim C1, as the code has it. \<open>totalPages\<close> is the ceiling of the number of filtered
  rows over 10, that is the least \<open>T\<close> with \<open>length \<le> 10 * T\<close>. No lower bound of 1 is
  applied: for a non-empty collection the ceiling is at least 1 already, so it equals the
  maximum of the ceiling and 1 there, and for the empty collection \<open>totalPages\<close> is 0.
\<close>

theorem totalPages_ceiling:
  "totalPages xs = \<lceil>real (length xs) / 10\<rceil> \<and>
   int (length xs) \<le> 10 * totalPages xs \<and>
   10 * (totalPages xs - 1) < int (length xs) \<and>
   (xs \<noteq> [] \<longrightarrow> totalPages xs = max \<lceil>real (length xs) / 10\<rceil> 1) \<and>
   (xs = [] \<longrightarrow> totalPages xs = 0)"
proof -
  have c: "totalPages xs = \<lceil>real (length xs) / 10\<rceil>"
    by (simp add: totalPages_def itemsPerPage_def)
  have u: "int (length xs) \<le> 10 * totalPages xs"
    unfolding totalPages_div by presburger
  have l: "10 * (totalPages xs - 1) < int (length xs)"
    unfolding totalPages_div by presburger
  have m: "totalPages xs = max \<lceil>real (length xs) / 10\<rceil> 1" if "xs \<noteq> []"
    using totalPages_pos [OF that] c by linarith
  show ?thesis
    using c u l m totalPages_Nil by blast
qed

theorem totalPages_ceiling_witness:
  "[0..<25] \<noteq> ([] :: nat list) \<and>
   totalPages [0..<25] = max \<lceil>real (length [0..<25]) / 10\<rceil> 1 \<and>
   totalPages [0..<25] = 3 \<and>
   totalPages ([] :: nat list) = 0"
  using totalPages_ceiling [of "[0..<25]"] totalPages_ceiling [of "[] :: nat list"]
  by simp

text \<open>
  The claim as written gives 1 for the empty filtered collection; the code gives 0.
\<close>

theorem totalPages_empty_counterexample:
  "totalPages ([] :: Survey list) = 0 \<and>
   totalPages ([] :: Survey list) \<noteq> max \<lceil>real (length ([] :: Survey list)) / 10\<rceil> 1"
  by (simp add: totalPages_def)

text \<open>
  Claim C2, as the code has it. \<open>goToPage n\<close> sets \<open>currentPage\<close> to
  \<open>min (max 1 n) totalPages\<close> for every integer \<open>n\<close>. When the filtered collection is not
  empty this is the clamp of \<open>n\<close> into \<open>[1, totalPages]\<close>: requests below 1 give 1, requests
  beyond \<open>totalPages\<close> give \<open>totalPages\<close>, requests in range are kept, and
  \<open>1 \<le> currentPage \<le> totalPages\<close> holds afterwards.
\<close>

theorem goToPage_clamps:
  "currentPage (goToPage n st) = min (max 1 n) (totalPages (filteredSurveys st)) \<and>
   (filteredSurveys st \<noteq> [] \<longrightarrow>
      1 \<le> currentPage (goToPage n st) \<and>
      currentPage (goToPage n st) \<le> totalPages (filteredSurveys st) \<and>
      (n < 1 \<longrightarrow> currentPage (goToPage n st) = 1) \<and>
      (1 \<le> n \<and> n \<le> totalPages (filteredSurveys st) \<longrightarrow> currentPage (goToPage n st) = n) \<and>
      (totalPages (filteredSurveys st) < n \<longrightarrow>
         currentPage (goToPage n st) = totalPages (filteredSurveys st)))"
proof -
  have e: "currentPage (goToPage n st) = min (max 1 n) (totalPages (filteredSurveys st))"
    by (simp add: goToPage_def)
  show ?thesis
    unfolding e using totalPages_pos [of "filteredSurveys st"] by auto
qed

theorem goToPage_clamps_witness:
  "filteredSurveys examplePage \<noteq> [] \<and>
   totalPages (filteredSurveys examplePage) = 3 \<and>
   currentPage (goToPage 7 examplePage) = 3 \<and>
   currentPage (goToPage (- 4) examplePage) = 1 \<and>
   currentPage (goToPage 2 examplePage) = 2 \<and>
   1 \<le> currentPage (goToPage 7 examplePage) \<and>
   currentPage (goToPage 7 examplePage) \<le> totalPages (filteredSurveys examplePage)"
proof -
  have t: "totalPages (filteredSurveys examplePage) = 3"
    by (simp add: examplePage_def initialDashboard_def totalPages_def itemsPerPage_def)
  have n: "filteredSurveys examplePage \<noteq> []"
    by (simp add: examplePage_def initialDashboard_def)
  show ?thesis
    using goToPage_clamps [of 7 examplePage] goToPage_clamps [of "- 4" examplePage]
      goToPage_clamps [of 2 examplePage] n
    by (simp add: t)
qed

text \<open>
  On the empty filtered collection \<open>totalPages\<close> is 0 and every request sets
  \<open>currentPage\<close> to 0, below the bound 1 of the claim as written.
\<close>

theorem goToPage_empty_counterexample:
  "filteredSurveys initialDashboard = [] \<and>
   currentPage (goToPage 5 initialDashboard) = 0 \<and>
   \<not> 1 \<le> currentPage (goToPage 5 initialDashboard)"
  by (simp add: goToPage_def initialDashboard_def totalPages_def)

text \<open>
  Claim C7. For a page \<open>p \<ge> 1\<close> the slice shown holds the rows at the zero-based offsets
  from \<open>(p - 1) * 10\<close> up to, and not including, the smaller of \<open>p * 10\<close> and the number of
  filtered rows; and the slices of the pages 1 to \<open>totalPages\<close>, one after the other, are
  the filtered collection itself, so no row is repeated and none is left out.
\<close>

theorem page_slices_partition:
  "(1 \<le> p \<longrightarrow>
      currentSurveys xs p =
        map (\<lambda>i. xs ! i) [nat ((p - 1) * 10) ..< min (nat (p * 10)) (length xs)]) \<and>
   concat (map (currentSurveys xs) [1..totalPages xs]) = xs"
  using page_offsets [of p xs] pages_concat [of xs] by blast

theorem page_slices_partition_witness:
  "(1::int) \<le> 3 \<and>
   currentSurveys [0..<25] 3 = [20, 21, 22, 23, 24] \<and>
   concat (map (currentSurveys [0..<25]) [1..totalPages [0..<25]]) = [0..<25]"
proof -
  have "map (\<lambda>i. [0..<25] ! i) [nat ((3 - 1) * 10) ..< min (nat (3 * 10)) (length [0..<25])] =
        [20, 21, 22, 23, 24]"
    by code_simp
  then show ?thesis
    using page_slices_partition [of 3 "[0..<25]"] by simp
qed

section \<open>Properties of the filter engine\<close>

lemma str_includes_sublist: "str_includes s t \<longleftrightarrow> sublist t s"
  by (induction s) (simp_all add: sublist_Cons_right)

lemma applyFilters_nested:
  "filteredSurveys (applyFilters lc st) =
     filter (\<lambda>s. searchTerm st = '''' \<or>
                  str_includes (lc (name s)) (lc (searchTerm st)) \<or>
                  str_includes (lc (description s)) (lc (searchTerm st)) \<or>
                  (case suggested_guest s of None \<Rightarrow> False
                   | Some g \<Rightarrow> g \<noteq> '''' \<and> str_includes (lc g) (lc (searchTerm st))))
       (filter (\<lambda>s. formatFilter st = ''all'' \<or> formatFilter st \<in> set (podcast_formats s))
          (filter (\<lambda>s. topicFilter st = ''all'' \<or> topicFilter st \<in> set (topics s))
             (surveys st)))"
  by (simp add: applyFilters_def Let_def)

lemma search_test_agrees:
  assumes "lc '''' = ''''"
  shows "(q = '''' \<or> str_includes (lc (name s)) (lc q) \<or>
          str_includes (lc (description s)) (lc q) \<or>
          (case suggested_guest s of None \<Rightarrow> False
           | Some g \<Rightarrow> g \<noteq> '''' \<and> str_includes (lc g) (lc q))) \<longleftrightarrow>
         (q = '''' \<or> sublist (lc q) (lc (name s)) \<or> sublist (lc q) (lc (description s)) \<or>
          (case suggested_guest s of None \<Rightarrow> False | Some g \<Rightarrow> sublist (lc q) (lc g)))"
proof (cases "suggested_guest s")
  case None
  then show ?thesis by (simp add: str_includes_sublist)
next
  case (Some g)
  show ?thesis
  proof (cases "g = ''''")
    case True
    have "sublist (lc q) (lc (name s))" if "sublist (lc q) (lc g)"
      using that True assms by simp
    then show ?thesis
      using Some True by (auto simp add: str_includes_sublist)
  next
    case False
    then show ?thesis
      using Some by (simp add: str_includes_sublist)
  qed
qed

lemma applyFilters_filter:
  assumes "lc '''' = ''''"
  shows "filteredSurveys (applyFilters lc st) =
           filter (passesFilters lc (topicFilter st) (formatFilter st) (searchTerm st))
             (surveys st)"
proof -
  have "passesFilters lc (topicFilter st) (formatFilter st) (searchTerm st) =
        (\<lambda>s. ((topicFilter st = ''all'' \<or> topicFilter st \<in> set (topics s)) \<and>
              (formatFilter st = ''all'' \<or> formatFilter st \<in> set (podcast_formats s))) \<and>
             (searchTerm st = '''' \<or>
              str_includes (lc (name s)) (lc (searchTerm st)) \<or>
              str_includes (lc (description s)) (lc (searchTerm st)) \<or>
              (case suggested_guest s of None \<Rightarrow> False
               | Some g \<Rightarrow> g \<noteq> '''' \<and> str_includes (lc g) (lc (searchTerm st)))))"
    unfolding passesFilters_def search_test_agrees [where lc = lc, OF assms] by (rule ext) simp
  then show ?thesis
    unfolding applyFilters_nested by (simp only: filter_filter)
qed

text \<open>
  Claim C3. A row is in the filtered view exactly when it is a row of the collection
  and passes the topic test (the filter is "all" or is among the row's topics), the
  format test (likewise on the row's formats) and the search test (the term is empty,
  or its lower-casing is a substring of the lower-cased name, description, or guest
  when there is one). The filtered view is the collection filtered by that conjunction.
\<close>

theorem applyFilters_conjunction:
  assumes "toLowerCase '''' = ''''"
  shows "(s \<in> set (filteredSurveys (applyFilters toLowerCase st)) \<longleftrightarrow>
            s \<in> set (surveys st) \<and>
            passesFilters toLowerCase (topicFilter st) (formatFilter st) (searchTerm st) s) \<and>
         filteredSurveys (applyFilters toLowerCase st) =
           filter (passesFilters toLowerCase (topicFilter st) (formatFilter st) (searchTerm st))
             (surveys st)"
  using applyFilters_filter [where lc = toLowerCase and st = st, OF assms] by simp

theorem applyFilters_conjunction_witness:
  "asciiLower '''' = '''' \<and>
   filteredSurveys (applyFilters asciiLower
     (exampleDashboard\<lparr>topicFilter := ''Technology'', searchTerm := ''LINUS''\<rparr>)) = [rowAna] \<and>
   filteredSurveys (applyFilters asciiLower
     (exampleDashboard\<lparr>formatFilter := ''Interview'', searchTerm := ''Foot''\<rparr>)) =
     [rowAnonymous]"
proof -
  let ?st1 = "exampleDashboard\<lparr>topicFilter := ''Technology'', searchTerm := ''LINUS''\<rparr>"
  let ?st2 = "exampleDashboard\<lparr>formatFilter := ''Interview'', searchTerm := ''Foot''\<rparr>"
  have l: "asciiLower '''' = ''''"
    by (simp add: asciiLower_def)
  have a: "filter (passesFilters asciiLower ''Technology'' ''all'' ''LINUS'')
             [rowAna, rowAnonymous, rowBudi] = [rowAna]"
    by code_simp
  have b: "filter (passesFilters asciiLower ''all'' ''Interview'' ''Foot'')
             [rowAna, rowAnonymous, rowBudi] = [rowAnonymous]"
    by code_simp
  have s1: "surveys ?st1 = [rowAna, rowAnonymous, rowBudi]" "topicFilter ?st1 = ''Technology''"
    "formatFilter ?st1 = ''all''" "searchTerm ?st1 = ''LINUS''"
    by (simp_all add: exampleDashboard_def initialDashboard_def)
  have s2: "surveys ?st2 = [rowAna, rowAnonymous, rowBudi]" "topicFilter ?st2 = ''all''"
    "formatFilter ?st2 = ''Interview''" "searchTerm ?st2 = ''Foot''"
    by (simp_all add: exampleDashboard_def initialDashboard_def)
  have "filteredSurveys (applyFilters asciiLower ?st1) = [rowAna]"
    using applyFilters_conjunction [where toLowerCase = asciiLower and st = ?st1, OF l]
    unfolding s1 a by (rule conjunct2)
  moreover have "filteredSurveys (applyFilters asciiLower ?st2) = [rowAnonymous]"
    using applyFilters_conjunction [where toLowerCase = asciiLower and st = ?st2, OF l]
    unfolding s2 b by (rule conjunct2)
  ultimately show ?thesis
    using l by (intro conjI)
qed

text \<open>
  Claim C4. The filtered view is a subsequence of the collection: its rows are rows of
  the collection, in the collection's order. With the unconstrained filter state it is
  the collection itself.
\<close>

theorem applyFilters_subsequence:
  "subseq (filteredSurveys (applyFilters toLowerCase st)) (surveys st) \<and>
   set (filteredSurveys (applyFilters toLowerCase st)) \<subseteq> set (surveys st) \<and>
   (topicFilter st = ''all'' \<and> formatFilter st = ''all'' \<and> searchTerm st = '''' \<longrightarrow>
      filteredSurveys (applyFilters toLowerCase st) = surveys st)"
proof -
  have "filteredSurveys (applyFilters toLowerCase st) = surveys st"
    if "topicFilter st = ''all''" "formatFilter st = ''all''" "searchTerm st = ''''"
    using that by (simp add: applyFilters_nested)
  moreover have "subseq (filteredSurveys (applyFilters toLowerCase st)) (surveys st)"
    unfolding applyFilters_nested filter_filter by (rule subseq_filter_left)
  moreover have "set (filteredSurveys (applyFilters toLowerCase st)) \<subseteq> set (surveys st)"
    unfolding applyFilters_nested by auto
  ultimately show ?thesis by blast
qed

theorem applyFilters_subsequence_witness:
  "topicFilter exampleDashboard = ''all'' \<and> formatFilter exampleDashboard = ''all'' \<and>
   searchTerm exampleDashboard = '''' \<and>
   filteredSurveys (applyFilters asciiLower exampleDashboard) =
     [rowAna, rowAnonymous, rowBudi] \<and>
   subseq (filteredSurveys (applyFilters asciiLower
            (exampleDashboard\<lparr>topicFilter := ''Technology''\<rparr>)))
     [rowAna, rowAnonymous, rowBudi]"
  using applyFilters_subsequence [of asciiLower exampleDashboard]
    applyFilters_subsequence [of asciiLower "exampleDashboard\<lparr>topicFilter := ''Technology''\<rparr>"]
  by (simp add: exampleDashboard_def initialDashboard_def)

section \<open>Properties of the aggregator\<close>

text \<open>
  What the model of the table does on the two kinds of inherited name: the entry for
  \<open>constructor\<close> becomes a string, and \<open>__proto__\<close> never gets an entry.
\<close>

lemma countLabel_constructor:
  "countLabel ''constructor'' Map.empty ''constructor'' =
     Some (Str ''function Object() { [native code] }1'')"
  by (simp add: countLabel_def writeStat_def readStat_def orZeroPlusOne_def
      inheritedText_def objectPrototypeKeys_def)

lemma countLabel_proto: "countLabel ''__proto__'' stats = stats"
  by (simp add: countLabel_def writeStat_def)

lemma countLabel_countsTable:
  assumes "label \<notin> set objectPrototypeKeys"
  shows "countLabel label (countsTable f) = countsTable (f(label := f label + 1))"
proof
  fix l
  have p: "label \<noteq> ''__proto__''"
    using assms by (auto simp add: objectPrototypeKeys_def)
  have i: "inheritedText label = None"
    using assms by (simp add: inheritedText_def)
  show "countLabel label (countsTable f) l = countsTable (f(label := f label + 1)) l"
    using p i
    by (simp add: countLabel_def writeStat_def readStat_def orZeroPlusOne_def
        countsTable_def tableOf_def)
qed

lemma fold_countLabel:
  "list_all (\<lambda>l. l \<notin> set objectPrototypeKeys) ls \<Longrightarrow>
   fold countLabel ls (countsTable f) = countsTable (\<lambda>l. f l + count_list ls l)"
proof (induction ls arbitrary: f)
  case Nil
  show ?case by simp
next
  case (Cons x ls)
  have "(\<lambda>l. (f(x := f x + 1)) l + count_list ls l) = (\<lambda>l. f l + count_list (x # ls) l)"
    by (rule ext) simp
  then show ?case
    using Cons by (simp add: countLabel_countsTable)
qed

lemma fold_rows_split:
  "fold (\<lambda>survey (ts, fs).
           (fold countLabel (topics survey) ts, fold countLabel (podcast_formats survey) fs))
        data (ts, fs) =
     (fold (\<lambda>s. fold countLabel (topics s)) data ts,
      fold (\<lambda>s. fold countLabel (podcast_formats s)) data fs)"
  by (induction data arbitrary: ts fs) simp_all

lemma fold_field:
  "list_all (\<lambda>s. list_all (\<lambda>l. l \<notin> set objectPrototypeKeys) (field s)) data \<Longrightarrow>
   fold (\<lambda>s. fold countLabel (field s)) data (countsTable f) =
     countsTable (\<lambda>l. f l + occurrences field data l)"
proof (induction data arbitrary: f)
  case Nil
  show ?case by (simp add: occurrences_def)
next
  case (Cons s data)
  have "(\<lambda>l. f l + count_list (field s) l + occurrences field data l) =
        (\<lambda>l. f l + occurrences field (s # data) l)"
    by (rule ext) (simp add: occurrences_def)
  then show ?case
    using Cons by (simp add: fold_countLabel)
qed

lemma empty_countsTable: "Map.empty = countsTable (\<lambda>l. 0)"
  by (rule ext) (simp add: countsTable_def tableOf_def)

lemma calculateStats_occurrences:
  assumes "\<forall>s \<in> set data. labelSet (topics s) \<and> labelSet (podcast_formats s)"
  shows "topicStats (calculateStats data st) l = tableOf (occurrences topics data l)"
    and "formatStats (calculateStats data st) l = tableOf (occurrences podcast_formats data l)"
proof -
  have t: "list_all (\<lambda>s. list_all (\<lambda>l. l \<notin> set objectPrototypeKeys) (topics s)) data"
    and f: "list_all (\<lambda>s. list_all (\<lambda>l. l \<notin> set objectPrototypeKeys) (podcast_formats s)) data"
    using assms by (simp_all add: labelSet_def list_all_iff)
  have t': "fold (\<lambda>s. fold countLabel (topics s)) data Map.empty =
      countsTable (occurrences topics data)"
    using fold_field [OF t, of "\<lambda>l. 0"] by (simp add: empty_countsTable [symmetric])
  have f': "fold (\<lambda>s. fold countLabel (podcast_formats s)) data Map.empty =
      countsTable (occurrences podcast_formats data)"
    using fold_field [OF f, of "\<lambda>l. 0"] by (simp add: empty_countsTable [symmetric])
  show "topicStats (calculateStats data st) l = tableOf (occurrences topics data l)"
    by (simp add: calculateStats_def fold_rows_split t' countsTable_def)
  show "formatStats (calculateStats data st) l = tableOf (occurrences podcast_formats data l)"
    by (simp add: calculateStats_def fold_rows_split f' countsTable_def)
qed

lemma count_list_distinct: "distinct xs \<Longrightarrow> count_list xs l = (if l \<in> set xs then 1 else 0)"
  by (induction xs) auto

lemma occurrences_labelSet:
  "(\<forall>s \<in> set data. labelSet (field s)) \<Longrightarrow> occurrences field data l = recordsWith field data l"
  by (induction data)
    (simp_all add: occurrences_def recordsWith_def labelSet_def count_list_distinct)

lemma recordsWith_snoc:
  "recordsWith field (data @ [r]) l =
     recordsWith field data l + (if l \<in> set (field r) then 1 else 0)"
  by (simp add: recordsWith_def)

text \<open>
  The arrays the form writes are label sets: both vocabularies are, the form starts with
  empty arrays, and a click on a checkbox keeps a label set a label set.
\<close>

lemma vocabulary_labelSet: "labelSet (TOPICS v) \<and> labelSet (PODCAST_FORMATS v)"
proof -
  have "labelSet (TOPICS FirstVariant)" "labelSet (TOPICS SecondVariant)"
    "labelSet (PODCAST_FORMATS FirstVariant)" "labelSet (PODCAST_FORMATS SecondVariant)"
    by code_simp+
  then show ?thesis
    by (cases v) simp_all
qed

lemma handleCheckboxChange_labelSet:
  assumes "labelSet (FormData.topics (formData st))"
    and "labelSet (FormData.podcast_formats (formData st))"
    and "value \<notin> set objectPrototypeKeys"
  shows "labelSet (FormData.topics (formData (handleCheckboxChange field value st))) \<and>
         labelSet (FormData.podcast_formats (formData (handleCheckboxChange field value st)))"
  using assms
  by (cases field) (auto simp add: handleCheckboxChange_def Let_def labelSet_def list_all_iff)

text \<open>
  Claim C6. For a collection whose rows' \<open>topics\<close> and \<open>podcast_formats\<close> are label sets,
  each of the two tables holds, for every label, the number of rows whose field contains
  the label, with no entry for a label that no row contains; one more row adds exactly
  one to the count of each of its labels and nothing to the others. On the empty
  collection both tables are empty.
\<close>

theorem calculateStats_counts:
  assumes "\<forall>s \<in> set data. labelSet (topics s) \<and> labelSet (podcast_formats s)"
  shows "topicStats (calculateStats data st) l = tableOf (recordsWith topics data l) \<and>
         formatStats (calculateStats data st) l = tableOf (recordsWith podcast_formats data l) \<and>
         (labelSet (topics r) \<and> labelSet (podcast_formats r) \<longrightarrow>
            topicStats (calculateStats (data @ [r]) st) l =
              tableOf (recordsWith topics data l + (if l \<in> set (topics r) then 1 else 0)) \<and>
            formatStats (calculateStats (data @ [r]) st) l =
              tableOf (recordsWith podcast_formats data l +
                       (if l \<in> set (podcast_formats r) then 1 else 0))) \<and>
         topicStats (calculateStats [] st) = Map.empty \<and>
         formatStats (calculateStats [] st) = Map.empty"
proof -
  have e: "topicStats (calculateStats [] st) = Map.empty"
    "formatStats (calculateStats [] st) = Map.empty"
    by (simp_all add: calculateStats_def)
  have a: "topicStats (calculateStats d st) l = tableOf (recordsWith topics d l) \<and>
           formatStats (calculateStats d st) l = tableOf (recordsWith podcast_formats d l)"
    if d: "\<forall>s \<in> set d. labelSet (topics s) \<and> labelSet (podcast_formats s)" for d
  proof -
    have t: "\<forall>s \<in> set d. labelSet (topics s)"
      and f: "\<forall>s \<in> set d. labelSet (podcast_formats s)"
      using d by blast+
    have "occurrences topics d l = recordsWith topics d l"
      using t by (rule occurrences_labelSet)
    moreover have "occurrences podcast_formats d l = recordsWith podcast_formats d l"
      using f by (rule occurrences_labelSet)
    ultimately show ?thesis
      using calculateStats_occurrences [OF d, of st l] by (simp only: simp_thms)
  qed
  have b: "topicStats (calculateStats (data @ [r]) st) l =
             tableOf (recordsWith topics data l + (if l \<in> set (topics r) then 1 else 0)) \<and>
           formatStats (calculateStats (data @ [r]) st) l =
             tableOf (recordsWith podcast_formats data l +
                      (if l \<in> set (podcast_formats r) then 1 else 0))"
    if r: "labelSet (topics r) \<and> labelSet (podcast_formats r)"
  proof -
    have "\<forall>s \<in> set (data @ [r]). labelSet (topics s) \<and> labelSet (podcast_formats s)"
      using r assms by simp
    from a [OF this] show ?thesis
      unfolding recordsWith_snoc .
  qed
  show ?thesis
    using a [OF assms] b e by blast
qed

theorem calculateStats_counts_witness:
  "labelSet (topics rowAna) \<and> labelSet (podcast_formats rowAna) \<and>
   labelSet (topics rowAnonymous) \<and> labelSet (podcast_formats rowAnonymous) \<and>
   labelSet (topics rowBudi) \<and> labelSet (podcast_formats rowBudi) \<and>
   topicStats (calculateStats [rowAna, rowAnonymous, rowBudi] initialDashboard) ''Technology'' =
     Some (Num 2) \<and>
   topicStats (calculateStats [rowAna, rowAnonymous, rowBudi] initialDashboard) ''Politics'' =
     None \<and>
   formatStats (calculateStats [rowAna, rowAnonymous, rowBudi] initialDashboard) ''Interview'' =
     Some (Num 2)"
proof -
  have s: "labelSet (topics rowAna)" "labelSet (podcast_formats rowAna)"
    "labelSet (topics rowAnonymous)" "labelSet (podcast_formats rowAnonymous)"
    "labelSet (topics rowBudi)" "labelSet (podcast_formats rowBudi)"
    by code_simp+
  then have d: "\<forall>s \<in> set [rowAna, rowAnonymous, rowBudi].
      labelSet (topics s) \<and> labelSet (podcast_formats s)"
    by simp
  have n: "tableOf (recordsWith topics [rowAna, rowAnonymous, rowBudi] ''Technology'') =
      Some (Num 2)"
    "tableOf (recordsWith topics [rowAna, rowAnonymous, rowBudi] ''Politics'') = None"
    "tableOf (recordsWith podcast_formats [rowAna, rowAnonymous, rowBudi] ''Interview'') =
      Some (Num 2)"
    by (simp_all add: tableOf_def recordsWith_def rowAna_def rowAnonymous_def rowBudi_def)
  have t: "topicStats (calculateStats [rowAna, rowAnonymous, rowBudi] initialDashboard)
          ''Technology'' = Some (Num 2)"
    using calculateStats_counts [OF d, of initialDashboard "''Technology''" rowAna,
        THEN conjunct1]
    unfolding n .
  have p: "topicStats (calculateStats [rowAna, rowAnonymous, rowBudi] initialDashboard)
          ''Politics'' = None"
    using calculateStats_counts [OF d, of initialDashboard "''Politics''" rowAna,
        THEN conjunct1]
    unfolding n .
  have i: "formatStats (calculateStats [rowAna, rowAnonymous, rowBudi] initialDashboard)
          ''Interview'' = Some (Num 2)"
    using calculateStats_counts [OF d, of initialDashboard "''Interview''" rowAna,
        THEN conjunct2, THEN conjunct1]
    unfolding n .
  show ?thesis
    using s t p i by (intro conjI)
qed

section \<open>Properties of the bulk delete\<close>

text \<open>
  Claim C5. When the delete is confirmed and the store reports no error, the rows left
  are the rows whose identifier is not among those deleted, in their order, and the
  selection is empty. When the store reports an error the state is the state before,
  also after the effects have run.
\<close>

theorem handleDeleteSurvey_outcomes:
  "surveys (handleDeleteSurvey ids True (None :: 'e option) st) =
     filter (\<lambda>s. sid s \<notin> set ids) (surveys st) \<and>
   (s \<in> set (surveys (handleDeleteSurvey ids True (None :: 'e option) st)) \<longleftrightarrow>
      s \<in> set (surveys st) \<and> sid s \<notin> set ids) \<and>
   subseq (surveys (handleDeleteSurvey ids True (None :: 'e option) st)) (surveys st) \<and>
   deleteItems (handleDeleteSurvey ids True (None :: 'e option) st) = [] \<and>
   handleDeleteSurvey ids True (Some (e :: 'e)) st = st \<and>
   dispatch toLowerCase (DeleteClicked True (Some e)) st = st \<and>
   surveys (dispatch toLowerCase (DeleteClicked True (None :: 'e option)) st) =
     filter (\<lambda>s. sid s \<notin> set (deleteItems st)) (surveys st) \<and>
   deleteItems (dispatch toLowerCase (DeleteClicked True (None :: 'e option)) st) = []"
  by (simp add: handleDeleteSurvey_def dispatch_def depsChanged_def applyFilters_def Let_def)

theorem handleDeleteSurvey_outcomes_witness:
  "surveys (handleDeleteSurvey [''b2''] True (None :: unit option)
     (exampleDashboard\<lparr>deleteItems := [''b2'']\<rparr>)) = [rowAna, rowBudi] \<and>
   deleteItems (handleDeleteSurvey [''b2''] True (None :: unit option)
     (exampleDashboard\<lparr>deleteItems := [''b2'']\<rparr>)) = [] \<and>
   surveys (handleDeleteSurvey [''b2''] True (Some ())
     (exampleDashboard\<lparr>deleteItems := [''b2'']\<rparr>)) = [rowAna, rowAnonymous, rowBudi] \<and>
   deleteItems (handleDeleteSurvey [''b2''] True (Some ())
     (exampleDashboard\<lparr>deleteItems := [''b2'']\<rparr>)) = [''b2'']"
proof -
  let ?st = "exampleDashboard\<lparr>deleteItems := [''b2'']\<rparr>"
  have f: "filter (\<lambda>s. sid s \<notin> set [''b2'']) [rowAna, rowAnonymous, rowBudi] = [rowAna, rowBudi]"
    by (simp add: rowAna_def rowAnonymous_def rowBudi_def)
  have i: "surveys ?st = [rowAna, rowAnonymous, rowBudi]" "deleteItems ?st = [''b2'']"
    by (simp_all add: exampleDashboard_def initialDashboard_def)
  show ?thesis
    using handleDeleteSurvey_outcomes [where ids = "[''b2'']" and st = ?st and e = "()"
        and s = rowAna and toLowerCase = asciiLower]
    unfolding i f by (simp add: exampleDashboard_def initialDashboard_def)
qed

section \<open>Properties of the view controller\<close>

lemma handler_changes_deps:
  "changesInput ev st \<Longrightarrow> depsChanged (snd (handler ev st)) st (fst (handler ev st))"
  by (cases ev) (auto simp add: depsChanged_def split: option.splits)

lemma applyFilters_frame:
  "surveys (applyFilters lc st) = surveys st"
  "topicFilter (applyFilters lc st) = topicFilter st"
  "formatFilter (applyFilters lc st) = formatFilter st"
  "searchTerm (applyFilters lc st) = searchTerm st"
  "currentPage (applyFilters lc st) = 1"
  by (simp_all add: applyFilters_def Let_def)

text \<open>
  Claim C8. After an event that changes a filter input or replaces the record
  collection, the effect has run on the state the handler left: \<open>currentPage\<close> is 1,
  whatever it was, and the filtered view is the new collection filtered by the new
  filter inputs.
\<close>

theorem input_change_resets_page:
  assumes "changesInput ev st" and "toLowerCase '''' = ''''"
  shows "dispatch toLowerCase ev st = applyFilters toLowerCase (fst (handler ev st)) \<and>
         currentPage (dispatch toLowerCase ev st) = 1 \<and>
         filteredSurveys (dispatch toLowerCase ev st) =
           filter (passesFilters toLowerCase (topicFilter (dispatch toLowerCase ev st))
                     (formatFilter (dispatch toLowerCase ev st))
                     (searchTerm (dispatch toLowerCase ev st)))
             (surveys (dispatch toLowerCase ev st))"
proof -
  have d: "dispatch toLowerCase ev st = applyFilters toLowerCase (fst (handler ev st))"
    using handler_changes_deps [OF assms(1)]
    by (simp add: dispatch_def split_def)
  show ?thesis
    unfolding d
    using applyFilters_filter [where lc = toLowerCase and st = "fst (handler ev st)", OF assms(2)]
    by (simp add: applyFilters_frame)
qed

theorem input_change_resets_page_witness:
  "changesInput (SearchChanged ''LINUS'' :: unit event) (exampleDashboard\<lparr>currentPage := 3\<rparr>) \<and>
   asciiLower '''' = '''' \<and>
   currentPage (dispatch asciiLower (SearchChanged ''LINUS'' :: unit event)
     (exampleDashboard\<lparr>currentPage := 3\<rparr>)) = 1 \<and>
   filteredSurveys (dispatch asciiLower (SearchChanged ''LINUS'' :: unit event)
     (exampleDashboard\<lparr>currentPage := 3\<rparr>)) = [rowAna]"
proof -
  let ?st = "exampleDashboard\<lparr>currentPage := 3\<rparr>"
  let ?ev = "SearchChanged ''LINUS'' :: unit event"
  have c: "changesInput ?ev ?st"
    by (simp add: exampleDashboard_def initialDashboard_def)
  have l: "asciiLower '''' = ''''"
    by (simp add: asciiLower_def)
  have a: "filter (passesFilters asciiLower ''all'' ''all'' ''LINUS'')
             [rowAna, rowAnonymous, rowBudi] = [rowAna]"
    by code_simp
  have s: "fst (handler ?ev ?st) = ?st\<lparr>searchTerm := ''LINUS''\<rparr>"
    by simp
  have i: "surveys (?st\<lparr>searchTerm := ''LINUS''\<rparr>) = [rowAna, rowAnonymous, rowBudi]"
    "topicFilter (?st\<lparr>searchTerm := ''LINUS''\<rparr>) = ''all''"
    "formatFilter (?st\<lparr>searchTerm := ''LINUS''\<rparr>) = ''all''"
    "searchTerm (?st\<lparr>searchTerm := ''LINUS''\<rparr>) = ''LINUS''"
    by (simp_all add: exampleDashboard_def initialDashboard_def)
  have t: "dispatch asciiLower ?ev ?st = applyFilters asciiLower (?st\<lparr>searchTerm := ''LINUS''\<rparr>) \<and>
      currentPage (dispatch asciiLower ?ev ?st) = 1 \<and>
      filteredSurveys (dispatch asciiLower ?ev ?st) =
        filter (passesFilters asciiLower (topicFilter (dispatch asciiLower ?ev ?st))
                 (formatFilter (dispatch asciiLower ?ev ?st))
                 (searchTerm (dispatch asciiLower ?ev ?st)))
          (surveys (dispatch asciiLower ?ev ?st))"
    using input_change_resets_page [where toLowerCase = asciiLower and ev = ?ev and st = ?st,
        OF c l]
    unfolding s .
  then have d: "dispatch asciiLower ?ev ?st = applyFilters asciiLower (?st\<lparr>searchTerm := ''LINUS''\<rparr>)"
    by (rule conjunct1)
  have "filteredSurveys (dispatch asciiLower ?ev ?st) = [rowAna]"
    using t unfolding d applyFilters_frame i a by (elim conjE)
  moreover have "currentPage (dispatch asciiLower ?ev ?st) = 1"
    using t by (elim conjE)
  ultimately show ?thesis
    using c l by (intro conjI)
qed

section \<open>Properties of the survey form\<close>

text \<open>
  Claim C9. With no topic selected, or with a topic but no format selected,
  \<open>handleSubmit\<close> sets the matching validation message, which is not empty, and issues
  no insert request, whatever the store would answer. It issues a request, and then
  exactly one, only when both selections are non-empty.
\<close>

theorem handleSubmit_validation:
  "(FormData.topics (formData st) = [] \<longrightarrow>
      handleSubmit v store st = (st\<lparr>success := False, error := topicsMessage v\<rparr>, [])) \<and>
   (FormData.topics (formData st) \<noteq> [] \<and> FormData.podcast_formats (formData st) = [] \<longrightarrow>
      handleSubmit v store st = (st\<lparr>success := False, error := formatsMessage v\<rparr>, [])) \<and>
   topicsMessage v \<noteq> '''' \<and> formatsMessage v \<noteq> '''' \<and>
   (snd (handleSubmit v store st) \<noteq> [] \<longleftrightarrow>
      FormData.topics (formData st) \<noteq> [] \<and> FormData.podcast_formats (formData st) \<noteq> []) \<and>
   length (snd (handleSubmit v store st)) \<le> 1"
proof -
  have m: "topicsMessage v \<noteq> ''''" "formatsMessage v \<noteq> ''''"
    by (cases v; simp)+
  show ?thesis
    using m by (simp add: handleSubmit_def Let_def)
qed

theorem handleSubmit_validation_witness:
  "FormData.topics (formData (exampleForm\<lparr>formData := (formData exampleForm)\<lparr>FormData.topics := []\<rparr>\<rparr>)) = [] \<and>
   snd (handleSubmit FirstVariant acceptingStore
     (exampleForm\<lparr>formData := (formData exampleForm)\<lparr>FormData.topics := []\<rparr>\<rparr>)) = [] \<and>
   error (fst (handleSubmit FirstVariant acceptingStore
     (exampleForm\<lparr>formData := (formData exampleForm)\<lparr>FormData.topics := []\<rparr>\<rparr>))) =
     ''Please select at least one topic'' \<and>
   FormData.topics (formData exampleForm) \<noteq> [] \<and>
   FormData.podcast_formats (formData exampleForm) \<noteq> [] \<and>
   snd (handleSubmit FirstVariant acceptingStore exampleForm) \<noteq> []"
  using handleSubmit_validation [of
      "exampleForm\<lparr>formData := (formData exampleForm)\<lparr>FormData.topics := []\<rparr>\<rparr>"
      FirstVariant acceptingStore]
    handleSubmit_validation [of exampleForm FirstVariant acceptingStore]
  by (simp add: exampleForm_def)

text \<open>
  Claim C10. For a submission that passes validation, the row handed to the store has
  the form's name, description, topics and formats as they are, also when name or
  description is empty; its \<open>suggested_guest\<close> is \<open>null\<close> when the input is the empty string
  and the input itself otherwise.
\<close>

theorem handleSubmit_row:
  assumes "FormData.topics (formData st) \<noteq> []"
    and "FormData.podcast_formats (formData st) \<noteq> []"
  shows "map name (snd (handleSubmit v store st)) = [FormData.name (formData st)] \<and>
         map description (snd (handleSubmit v store st)) =
           [FormData.description (formData st)] \<and>
         map topics (snd (handleSubmit v store st)) = [FormData.topics (formData st)] \<and>
         map podcast_formats (snd (handleSubmit v store st)) =
           [FormData.podcast_formats (formData st)] \<and>
         (FormData.suggested_guest (formData st) = '''' \<longrightarrow>
            map suggested_guest (snd (handleSubmit v store st)) = [None]) \<and>
         (FormData.suggested_guest (formData st) \<noteq> '''' \<longrightarrow>
            map suggested_guest (snd (handleSubmit v store st)) =
              [Some (FormData.suggested_guest (formData st))])"
  using assms by (simp add: handleSubmit_def Let_def)

theorem handleSubmit_row_witness:
  "FormData.topics (formData exampleForm) \<noteq> [] \<and>
   FormData.podcast_formats (formData exampleForm) \<noteq> [] \<and>
   FormData.suggested_guest (formData exampleForm) = '''' \<and>
   map suggested_guest (snd (handleSubmit SecondVariant rejectingStore exampleForm)) = [None] \<and>
   map name (snd (handleSubmit SecondVariant rejectingStore exampleForm)) = [''''] \<and>
   map description (snd (handleSubmit SecondVariant rejectingStore exampleForm)) =
     [''Black holes'']"
proof -
  have h: "FormData.topics (formData exampleForm) \<noteq> []"
    "FormData.podcast_formats (formData exampleForm) \<noteq> []"
    by (simp_all add: exampleForm_def)
  show ?thesis
    using handleSubmit_row [OF h, of SecondVariant rejectingStore]
    by (simp add: exampleForm_def)
qed

end
